theory Spec2Isabelle
  imports Complex_Main "HOL-Library.AList"
begin

section \<open>Prediction retrieval and normalization (\<open>web/api/viewsets.py\<close>)\<close>

text \<open>
  The development embeds \<open>PrintViewSet.prediction_json\<close>: the view that fetches the raw
  per-frame prediction timeline of a print from the upstream store with a conditional GET
  and rewrites every frame with a normalized probability.

  The view calls into code that lives outside this file of the repository and into two
  libraries. Each such call is a field of the record \<open>world\<close> below or a small function
  that follows the library's documented behaviour; everything the view itself does
  (the guards, the header filters, the loop over the frames, the in-place updates of the
  parsed JSON) is written out.  Effects that claims talk about (the upstream GET, parsing
  the body, calling the calibration engine) are recorded in an event log that the model
  returns next to the result.
\<close>

subsection \<open>JSON values, as \<open>r.json()\<close> returns them\<close>

text \<open>
  A parsed JSON document is a tree of fresh Python objects, so no two frames alias each
  other and the in-place updates of the view are functional updates of the tree. A Python
  \<open>dict\<close> keeps insertion order and has distinct keys: \<open>JObj\<close> holds its items in
  order. Numbers are read as reals; the view never computes with them.
\<close>

datatype json =
    JNull
  | JBool bool
  | JNum real
  | JStr string
  | JArr "json list"
  | JObj "(string \<times> json) list"

text \<open>\<open>d[k] = v\<close> on a dict replaces the value in place when the key exists and appends
  the key otherwise: this is \<^const>\<open>AList.update\<close>. \<open>k in d\<close> and \<open>d[k]\<close> read
  with \<^const>\<open>map_of\<close>.\<close>

subsection \<open>Errors raised along the view\<close>

datatype error =
    Http404                 \<comment> \<open>\<open>get_object_or_404\<close> found no print\<close>
  | Timeout                 \<comment> \<open>\<open>requests.exceptions.Timeout\<close>\<close>
  | RequestException        \<comment> \<open>any other failure of \<open>requests.get\<close> before a response exists\<close>
  | HTTPError nat           \<comment> \<open>\<open>raise_for_status\<close>, with the upstream status\<close>
  | JSONDecodeError         \<comment> \<open>\<open>r.json()\<close> on a body that is not JSON\<close>
  | TypeError               \<comment> \<open>Python's \<open>TypeError\<close>\<close>

subsection \<open>HTTP headers\<close>

type_synonym headers = "(string \<times> string) list"

definition lower_char :: "char \<Rightarrow> char" where
  "lower_char c =
     (case map_of (zip ''ABCDEFGHIJKLMNOPQRSTUVWXYZ'' ''abcdefghijklmnopqrstuvwxyz'') c of
        Some d \<Rightarrow> d
      | None \<Rightarrow> c)"

definition lower :: "string \<Rightarrow> string" where
  "lower s = map lower_char s"

text \<open>Both \<open>request.headers\<close> (Django) and \<open>r.headers\<close> (requests) are case-insensitive
  mappings: \<open>.get(name)\<close> compares lower-cased names and returns \<open>None\<close> for a name
  that is not there.\<close>

definition headers_get :: "headers \<Rightarrow> string \<Rightarrow> string option" where
  "headers_get hs name = map_of (map (\<lambda>(n, v). (lower n, v)) hs) (lower name)"

text \<open>The dict comprehension \<open>{k: v for k, v in d.items() if v is not None}\<close>.\<close>

fun not_none_items :: "(string \<times> string option) list \<Rightarrow> headers" where
  "not_none_items [] = []"
| "not_none_items ((k, None) # kvs) = not_none_items kvs"
| "not_none_items ((k, Some v) # kvs) = (k, v) # not_none_items kvs"

subsection \<open>The entities the view reads\<close>

record Printer =
  detective_sensitivity :: real

record Print =
  prediction_json_url :: "string option"    \<comment> \<open>\<open>null=True\<close>\<close>
  printer :: "Printer option"

text \<open>The response of the upstream store, a \<open>requests.Response\<close>: \<open>r_json\<close> is what
  \<open>r.json()\<close> returns, \<open>None\<close> when the body does not parse and the call raises.\<close>

record upstream_response =
  status_code :: nat
  r_headers :: headers
  r_json :: "json option"

datatype fetched = Raised error | Fetched upstream_response

text \<open>The \<open>rest_framework\<close> \<open>Response\<close> the view returns: \<open>data = None\<close> renders as
  an empty body, and a response built without \<open>status\<close> has status 200.\<close>

record response =
  data :: "json option"
  status :: nat
  headers :: headers

subsection \<open>Observable effects\<close>

datatype 'p event =
    HttpGet string nat headers   \<comment> \<open>\<open>requests.get(url, timeout, headers)\<close>\<close>
  | JsonParse                    \<comment> \<open>\<open>r.json()\<close>\<close>
  | CalcCall real 'p             \<comment> \<open>\<open>calc_normalized_p(detective_sensitivity, pred)\<close>\<close>

subsection \<open>What the view calls outside this file\<close>

text \<open>
  \<^item> \<open>requests_get url timeout headers\<close>: the upstream store and the network; it answers
    with a response or raises.
  \<^item> \<open>PrinterPrediction fields\<close>: the model constructor of \<open>app.models\<close>, called with
    the items of the field-set as keyword arguments; it raises on arguments it does not
    accept. \<open>'p\<close> is the type of its instances.
  \<^item> \<open>calc_normalized_p\<close>: the calibration engine of \<open>app.models\<close>.
  \<^item> \<open>default_detective_sensitivity\<close>: the value of
    \<open>Printer._meta.get_field('detective_sensitivity').get_default()\<close>.
\<close>

record 'p world =
  requests_get :: "string \<Rightarrow> nat \<Rightarrow> headers \<Rightarrow> fetched"
  PrinterPrediction :: "(string \<times> json) list \<Rightarrow> error + 'p"
  calc_normalized_p :: "real \<Rightarrow> 'p \<Rightarrow> real"
  default_detective_sensitivity :: real

subsection \<open>The view\<close>

definition PREDICTION_FETCH_TIMEOUT :: nat where
  "PREDICTION_FETCH_TIMEOUT = 20"

text \<open>\<open>Response.raise_for_status\<close> of the requests library raises \<open>HTTPError\<close> for a
  status from 400 to 599 and returns for every other status.\<close>

definition raise_for_status :: "upstream_response \<Rightarrow> error + unit" where
  "raise_for_status r =
     (if 400 \<le> status_code r \<and> status_code r < 600 then Inl (HTTPError (status_code r))
      else Inr ())"

text \<open>The headers of the upstream GET: lines 181 to 184 and the comprehension of line 188.\<close>

definition upstream_headers :: "headers \<Rightarrow> headers" where
  "upstream_headers request_headers =
     not_none_items
       [(''If-Modified-Since'', headers_get request_headers ''if-modified-since''),
        (''If-None-Match'', headers_get request_headers ''if-none-match'')]"

text \<open>The headers of the client response: lines 191 to 194 and the comprehensions of
  lines 201 and 224.\<close>

definition client_headers :: "upstream_response \<Rightarrow> headers" where
  "client_headers r =
     not_none_items
       [(''Last-Modified'', headers_get (r_headers r) ''Last-Modified''),
        (''Etag'', headers_get (r_headers r) ''Etag'')]"

text \<open>\<open>PrinterPrediction(**raw_pred['fields'])\<close>: unpacking with \<open>**\<close> needs a mapping
  and raises \<open>TypeError\<close> on any other value; the keys of a JSON object are strings.\<close>

fun construct_prediction :: "'p world \<Rightarrow> json \<Rightarrow> error + 'p" where
  "construct_prediction w (JObj fs) = PrinterPrediction w fs"
| "construct_prediction w _ = Inl TypeError"

text \<open>\<open>raw_pred['fields']['normalized_p'] = v\<close>, on a value that was a mapping.\<close>

fun set_normalized_p :: "real \<Rightarrow> json \<Rightarrow> json" where
  "set_normalized_p v (JObj fs) = JObj (AList.update ''normalized_p'' (JNum v) fs)"
| "set_normalized_p v j = j"

text \<open>
  The body of the loop, lines 213 to 220, on one element of the parsed body. On a dict,
  \<open>'fields' not in raw_pred\<close> tests the keys. On any other value either the test itself
  raises \<open>TypeError\<close> (numbers, booleans, \<open>None\<close>) or the item access of the branch
  taken does (strings and lists take no string index and no item assignment by a string).
\<close>

fun normalize_frame :: "'p world \<Rightarrow> real \<Rightarrow> json \<Rightarrow> (error + json) \<times> 'p event list" where
  "normalize_frame w s (JObj raw_pred) =
     (case map_of raw_pred ''fields'' of
        None \<Rightarrow>
          (Inr (JObj (AList.update ''fields'' (JObj [(''normalized_p'', JNum 0)]) raw_pred)), [])
      | Some field_set \<Rightarrow>
          (case construct_prediction w field_set of
             Inl e \<Rightarrow> (Inl e, [])
           | Inr pred \<Rightarrow>
               (Inr (JObj (AList.update ''fields''
                        (set_normalized_p (calc_normalized_p w s pred) field_set) raw_pred)),
                [CalcCall s pred])))"
| "normalize_frame w s _ = (Inl TypeError, [])"

text \<open>The loop \<open>for raw_pred in data\<close> over a list: the first frame that raises ends
  the loop, and what was logged before stays logged.\<close>

fun normalize_frames :: "'p world \<Rightarrow> real \<Rightarrow> json list \<Rightarrow> (error + json list) \<times> 'p event list" where
  "normalize_frames w s [] = (Inr [], [])"
| "normalize_frames w s (raw_pred # rest) =
     (case normalize_frame w s raw_pred of
        (Inl e, ev) \<Rightarrow> (Inl e, ev)
      | (Inr f, ev) \<Rightarrow>
          (case normalize_frames w s rest of
             (Inl e, ev') \<Rightarrow> (Inl e, ev @ ev')
           | (Inr fs, ev') \<Rightarrow> (Inr (f # fs), ev @ ev')))"

text \<open>
  \<open>for raw_pred in data\<close> on whatever \<open>r.json()\<close> returned. A list runs the loop. A dict
  iterates its keys and a string its characters, which are strings, so the first step
  raises \<open>TypeError\<close>; when empty, the loop body never runs and \<open>data\<close> is returned as it
  is. Numbers, booleans and \<open>None\<close> are not iterable.
\<close>

fun normalize_data :: "'p world \<Rightarrow> real \<Rightarrow> json \<Rightarrow> (error + json) \<times> 'p event list" where
  "normalize_data w s (JArr frames) =
     (case normalize_frames w s frames of
        (Inl e, ev) \<Rightarrow> (Inl e, ev)
      | (Inr fs, ev) \<Rightarrow> (Inr (JArr fs), ev))"
| "normalize_data w s (JObj kvs) = (if kvs = [] then (Inr (JObj kvs), []) else (Inl TypeError, []))"
| "normalize_data w s (JStr str) = (if str = [] then (Inr (JStr str), []) else (Inl TypeError, []))"
| "normalize_data w s _ = (Inl TypeError, [])"

text \<open>Lines 206 to 210.\<close>

definition sensitivity_of :: "'p world \<Rightarrow> Print \<Rightarrow> real" where
  "sensitivity_of w p =
     (case printer p of
        Some pr \<Rightarrow> detective_sensitivity pr
      | None \<Rightarrow> default_detective_sensitivity w)"

text \<open>Lines 196 to 225: what the view does with the upstream response once
  \<open>raise_for_status\<close> has returned.\<close>

definition respond :: "'p world \<Rightarrow> Print \<Rightarrow> upstream_response \<Rightarrow> (error + response) \<times> 'p event list" where
  "respond w p r =
     (if status_code r = 304 then
        (Inr \<lparr>data = None, status = 304, headers = client_headers r\<rparr>, [])
      else
        (case r_json r of
           None \<Rightarrow> (Inl JSONDecodeError, [JsonParse])
         | Some parsed \<Rightarrow>
             (case normalize_data w (sensitivity_of w p) parsed of
                (Inl e, ev) \<Rightarrow> (Inl e, JsonParse # ev)
              | (Inr d, ev) \<Rightarrow>
                  (Inr \<lparr>data = Some d, status = 200, headers = client_headers r\<rparr>,
                   JsonParse # ev))))"

text \<open>Lines 181 to 225: the fetch, for a print that has a prediction URL.\<close>

definition fetch_predictions ::
  "'p world \<Rightarrow> headers \<Rightarrow> Print \<Rightarrow> string \<Rightarrow> (error + response) \<times> 'p event list" where
  "fetch_predictions w request_headers p url =
     (let sent = upstream_headers request_headers;
          get = HttpGet url PREDICTION_FETCH_TIMEOUT sent
      in case requests_get w url PREDICTION_FETCH_TIMEOUT sent of
           Raised e \<Rightarrow> (Inl e, [get])
         | Fetched r \<Rightarrow>
             (case raise_for_status r of
                Inl e \<Rightarrow> (Inl e, [get])
              | Inr _ \<Rightarrow> (case respond w p r of (res, ev) \<Rightarrow> (res, get # ev))))"

text \<open>
  The whole view. \<open>found\<close> is what the queryset holds for \<open>pk\<close>: \<open>get_object_or_404\<close>
  raises when there is none. \<open>not p.prediction_json_url\<close> holds for \<open>None\<close> and for the
  empty string.
\<close>

definition prediction_json ::
  "'p world \<Rightarrow> headers \<Rightarrow> Print option \<Rightarrow> (error + response) \<times> 'p event list" where
  "prediction_json w request_headers found =
     (case found of
        None \<Rightarrow> (Inl Http404, [])
      | Some p \<Rightarrow>
          (case prediction_json_url p of
             None \<Rightarrow> (Inr \<lparr>data = Some (JArr []), status = 200, headers = []\<rparr>, [])
           | Some url \<Rightarrow>
               if url = [] then (Inr \<lparr>data = Some (JArr []), status = 200, headers = []\<rparr>, [])
               else fetch_predictions w request_headers p url))"

subsection \<open>Example inputs\<close>

text \<open>A world whose upstream store always gives the same outcome, whose model constructor
  accepts two field names and whose engine returns the sensitivity; and a print with a
  prediction URL. The examples below run the view on them.\<close>

definition example_world :: "fetched \<Rightarrow> (string \<times> json) list world" where
  "example_world outcome =
     \<lparr>requests_get = (\<lambda>url timeout hs. outcome),
      PrinterPrediction =
        (\<lambda>fs. if list_all (\<lambda>(k, v). k \<in> set [''no_error'', ''current_p'']) fs then Inr fs
              else Inl TypeError),
      calc_normalized_p = (\<lambda>s pred. s),
      default_detective_sensitivity = 1\<rparr>"

definition example_print :: "Printer option \<Rightarrow> Print" where
  "example_print pr = \<lparr>prediction_json_url = Some ''https://store/p.json'', printer = pr\<rparr>"

section \<open>Properties of the parts\<close>

lemma update_absent: "map_of al k = None \<Longrightarrow> AList.update k v al = al @ [(k, v)]"
  by (induction al) (auto split: if_splits)

lemma normalize_frame_events:
  "e \<in> set (snd (normalize_frame w s f)) \<Longrightarrow> \<exists>pred. e = CalcCall s pred"
  by (cases f) (auto split: option.splits sum.splits)

lemma normalize_frames_events:
  "e \<in> set (snd (normalize_frames w s fs)) \<Longrightarrow> \<exists>pred. e = CalcCall s pred"
proof (induction fs)
  case Nil
  then show ?case by simp
next
  case (Cons f fs)
  obtain r1 ev1 where f1: "normalize_frame w s f = (r1, ev1)" by (cases "normalize_frame w s f")
  obtain r2 ev2 where f2: "normalize_frames w s fs = (r2, ev2)" by (cases "normalize_frames w s fs")
  from Cons.prems f1 f2 have "e \<in> set ev1 \<or> e \<in> set ev2"
    by (auto split: sum.splits)
  then show ?case
  proof
    assume "e \<in> set ev1"
    with f1 show ?thesis using normalize_frame_events [of e w s f] by simp
  next
    assume "e \<in> set ev2"
    with f2 show ?thesis using Cons.IH by simp
  qed
qed

lemma normalize_data_events:
  assumes "e \<in> set (snd (normalize_data w s d))"
  shows "\<exists>pred. e = CalcCall s pred"
proof (cases d)
  case (JArr frames)
  obtain r ev where f: "normalize_frames w s frames = (r, ev)" by (cases "normalize_frames w s frames")
  with JArr assms show ?thesis using normalize_frames_events [of e w s frames]
    by (auto split: sum.splits)
qed (use assms in \<open>auto split: if_splits\<close>)

lemma respond_events:
  assumes "e \<in> set (snd (respond w p r))"
  shows "e = JsonParse \<or> (\<exists>pred. e = CalcCall (sensitivity_of w p) pred)"
proof (cases "status_code r = 304")
  case True
  with assms show ?thesis by (simp add: respond_def)
next
  case False
  show ?thesis
  proof (cases "r_json r")
    case None
    with False assms show ?thesis by (simp add: respond_def)
  next
    case (Some parsed)
    obtain res ev where n: "normalize_data w (sensitivity_of w p) parsed = (res, ev)"
      by (cases "normalize_data w (sensitivity_of w p) parsed")
    with False Some assms have "e = JsonParse \<or> e \<in> set ev"
      by (auto simp: respond_def split: sum.splits)
    with n show ?thesis using normalize_data_events [of e w "sensitivity_of w p" parsed] by auto
  qed
qed

lemma fetch_predictions_events:
  "\<exists>rest. snd (fetch_predictions w rh p url) =
      HttpGet url PREDICTION_FETCH_TIMEOUT (upstream_headers rh) # rest \<and>
      (\<forall>e \<in> set rest. e = JsonParse \<or> (\<exists>pred. e = CalcCall (sensitivity_of w p) pred))"
proof (cases "requests_get w url PREDICTION_FETCH_TIMEOUT (upstream_headers rh)")
  case (Raised e)
  then show ?thesis by (simp add: fetch_predictions_def)
next
  case (Fetched r)
  show ?thesis
  proof (cases "raise_for_status r")
    case (Inl e)
    with Fetched show ?thesis by (simp add: fetch_predictions_def)
  next
    case (Inr u)
    obtain res ev where rs: "respond w p r = (res, ev)" by (cases "respond w p r")
    with Fetched Inr have "snd (fetch_predictions w rh p url) =
        HttpGet url PREDICTION_FETCH_TIMEOUT (upstream_headers rh) # ev"
      by (simp add: fetch_predictions_def)
    moreover have "\<forall>e \<in> set ev. e = JsonParse \<or> (\<exists>pred. e = CalcCall (sensitivity_of w p) pred)"
      using respond_events [of _ w p r] rs by simp
    ultimately show ?thesis by blast
  qed
qed

lemma prediction_json_fetches:
  "prediction_json_url p = Some url \<Longrightarrow> url \<noteq> [] \<Longrightarrow>
   prediction_json w rh (Some p) = fetch_predictions w rh p url"
  by (simp add: prediction_json_def)

lemma upstream_headers_lookup:
  "map_of (upstream_headers rh) ''If-Modified-Since'' = headers_get rh ''if-modified-since''"
  "map_of (upstream_headers rh) ''If-None-Match'' = headers_get rh ''if-none-match''"
  "fst ` set (upstream_headers rh) \<subseteq> {''If-Modified-Since'', ''If-None-Match''}"
  by (cases "headers_get rh ''if-modified-since''"; cases "headers_get rh ''if-none-match''";
      simp add: upstream_headers_def)+

lemma client_headers_lookup:
  "map_of (client_headers r) ''Last-Modified'' = headers_get (r_headers r) ''Last-Modified''"
  "map_of (client_headers r) ''Etag'' = headers_get (r_headers r) ''Etag''"
  "fst ` set (client_headers r) \<subseteq> {''Last-Modified'', ''Etag''}"
  by (cases "headers_get (r_headers r) ''Last-Modified''"; cases "headers_get (r_headers r) ''Etag''";
      simp add: client_headers_def)+

lemma normalize_frames_append:
  "normalize_frames w s xs = (Inr xs', e1) \<Longrightarrow>
   normalize_frames w s (xs @ ys) =
     (case normalize_frames w s ys of
        (Inl e, e2) \<Rightarrow> (Inl e, e1 @ e2)
      | (Inr ys', e2) \<Rightarrow> (Inr (xs' @ ys'), e1 @ e2))"
proof (induction xs arbitrary: xs' e1)
  case Nil
  then show ?case by (auto split: prod.splits sum.splits)
next
  case (Cons x xs)
  obtain r1 ev1 where f1: "normalize_frame w s x = (r1, ev1)" by (cases "normalize_frame w s x")
  obtain r2 ev2 where f2: "normalize_frames w s xs = (r2, ev2)" by (cases "normalize_frames w s xs")
  from Cons.prems f1 f2 obtain g gs where g: "r1 = Inr g" "r2 = Inr gs" "xs' = g # gs" "e1 = ev1 @ ev2"
    by (auto split: sum.splits)
  from Cons.IH [of gs ev2] f2 g have
    "normalize_frames w s (xs @ ys) =
       (case normalize_frames w s ys of
          (Inl e, e2) \<Rightarrow> (Inl e, ev2 @ e2)
        | (Inr ys', e2) \<Rightarrow> (Inr (gs @ ys'), ev2 @ e2))"
    by simp
  with f1 g show ?case
    by (auto split: prod.splits sum.splits)
qed

lemma normalize_frame_missing_fields:
  "map_of raw_pred ''fields'' = None \<Longrightarrow>
   normalize_frame w s (JObj raw_pred) =
     (Inr (JObj (raw_pred @ [(''fields'', JObj [(''normalized_p'', JNum 0)])])), [])"
  by (simp add: update_absent)

lemma respond_array:
  "status_code r \<noteq> 304 \<Longrightarrow> r_json r = Some (JArr frames) \<Longrightarrow>
   respond w p r =
     (case normalize_frames w (sensitivity_of w p) frames of
        (Inl e, ev) \<Rightarrow> (Inl e, JsonParse # ev)
      | (Inr fs, ev) \<Rightarrow>
          (Inr \<lparr>data = Some (JArr fs), status = 200, headers = client_headers r\<rparr>, JsonParse # ev))"
  by (auto simp: respond_def split: prod.splits sum.splits)

lemma fetch_predictions_array:
  assumes "requests_get w url PREDICTION_FETCH_TIMEOUT (upstream_headers rh) = Fetched r"
    and "\<not> (400 \<le> status_code r \<and> status_code r < 600)"
    and "status_code r \<noteq> 304" and "r_json r = Some (JArr frames)"
  shows "fetch_predictions w rh p url =
     (case normalize_frames w (sensitivity_of w p) frames of
        (Inl e, ev) \<Rightarrow> (Inl e, HttpGet url PREDICTION_FETCH_TIMEOUT (upstream_headers rh) # JsonParse # ev)
      | (Inr fs, ev) \<Rightarrow>
          (Inr \<lparr>data = Some (JArr fs), status = 200, headers = client_headers r\<rparr>,
           HttpGet url PREDICTION_FETCH_TIMEOUT (upstream_headers rh) # JsonParse # ev))"
proof -
  have "raise_for_status r = Inr ()" using assms(2) by (auto simp: raise_for_status_def)
  with assms(1) have "fetch_predictions w rh p url =
      (fst (respond w p r), HttpGet url PREDICTION_FETCH_TIMEOUT (upstream_headers rh) # snd (respond w p r))"
    by (simp add: fetch_predictions_def Let_def split: prod.splits)
  then show ?thesis
    using respond_array [OF assms(3,4), of w p]
    by (auto split: prod.splits sum.splits)
qed




lemma normalize_frames_fails:
  "f \<in> set frames \<Longrightarrow> fst (normalize_frame w s f) = Inl e \<Longrightarrow>
   \<exists>e'. fst (normalize_frames w s frames) = Inl e'"
proof (induction frames)
  case Nil
  then show ?case by simp
next
  case (Cons x frames)
  obtain r1 ev1 where f1: "normalize_frame w s x = (r1, ev1)" by (cases "normalize_frame w s x")
  obtain r2 ev2 where f2: "normalize_frames w s frames = (r2, ev2)"
    by (cases "normalize_frames w s frames")
  show ?case
  proof (cases r1)
    case (Inl e1)
    with f1 show ?thesis by simp
  next
    case (Inr g)
    with Cons.prems f1 have "f \<in> set frames" by auto
    with Cons.IH Cons.prems(2) f2 obtain e' where "r2 = Inl e'" by auto
    with f1 f2 Inr show ?thesis by simp
  qed
qed

lemma normalize_frame_rejected:
  assumes "map_of raw_pred ''fields'' = Some v"
    and "\<forall>fs. v = JObj fs \<longrightarrow> (\<exists>e. PrinterPrediction w fs = Inl e)"
  shows "\<exists>e. normalize_frame w s (JObj raw_pred) = (Inl e, [])"
proof (cases v)
  case (JObj fs)
  with assms(2) obtain e where "PrinterPrediction w fs = Inl e" by blast
  with JObj assms(1) show ?thesis by simp
qed (use assms(1) in simp_all)

lemmas example_defs = example_world_def example_print_def PREDICTION_FETCH_TIMEOUT_def
  prediction_json_def fetch_predictions_def respond_def raise_for_status_def
  upstream_headers_def client_headers_def headers_get_def lower_def lower_char_def
  sensitivity_of_def

section \<open>Properties of the view\<close>



text \<open>
  Claim C2, as the code has it. Every upstream GET of the view carries \<open>If-Modified-Since\<close>
  and \<open>If-None-Match\<close> exactly when the client request has that header, with the value
  the client sent, and carries no other header: an absent validator is left out entirely,
  never replaced by a placeholder. The filter is \<open>v is not None\<close>, so a validator the
  client sent with an empty value is forwarded with that empty value.
\<close>

theorem upstream_get_forwards_present_validators:
  assumes "HttpGet url timeout hs \<in> set (snd (prediction_json w request_headers found))"
  shows "map_of hs ''If-Modified-Since'' = headers_get request_headers ''if-modified-since''
       \<and> map_of hs ''If-None-Match'' = headers_get request_headers ''if-none-match''
       \<and> fst ` set hs \<subseteq> {''If-Modified-Since'', ''If-None-Match''}"
proof -
  from assms obtain p u where p: "found = Some p" "prediction_json_url p = Some u" "u \<noteq> []"
    by (auto simp: prediction_json_def split: option.splits if_splits)
  then have "HttpGet url timeout hs \<in> set (snd (fetch_predictions w request_headers p u))"
    using assms by (simp add: prediction_json_fetches)
  moreover obtain rest where
    "snd (fetch_predictions w request_headers p u) =
       HttpGet u PREDICTION_FETCH_TIMEOUT (upstream_headers request_headers) # rest"
    "\<forall>e \<in> set rest. e = JsonParse \<or> (\<exists>pred. e = CalcCall (sensitivity_of w p) pred)"
    using fetch_predictions_events [of w request_headers p u] by blast
  ultimately have "hs = upstream_headers request_headers" by auto
  then show ?thesis using upstream_headers_lookup [of request_headers] by simp
qed

theorem upstream_get_forwards_present_validators_witness:
  "HttpGet ''https://store/p.json'' 20 [(''If-None-Match'', ''abc'')]
     \<in> set (snd (prediction_json (example_world (Raised Timeout))
                  [(''if-none-match'', ''abc'')] (Some (example_print None))))
   \<and> headers_get [(''if-none-match'', ''abc'')] ''if-modified-since'' = None
   \<and> headers_get [(''if-none-match'', ''abc'')] ''if-none-match'' = Some ''abc''"
proof -
  have a: "HttpGet ''https://store/p.json'' 20 [(''If-None-Match'', ''abc'')]
     \<in> set (snd (prediction_json (example_world (Raised Timeout))
                  [(''if-none-match'', ''abc'')] (Some (example_print None))))"
    by (simp add: example_defs)
  show ?thesis
    using upstream_get_forwards_present_validators [OF a] a by simp
qed

text \<open>
  Claim C2 as stated says that no empty validator value is ever sent. A client request
  whose \<open>If-None-Match\<close> header has the empty value makes the view send that header,
  empty, to the upstream store.
\<close>

theorem empty_validator_is_forwarded:
  "prediction_json (example_world (Raised Timeout)) [(''If-None-Match'', [])]
     (Some (example_print None)) =
   (Inl Timeout, [HttpGet ''https://store/p.json'' 20 [(''If-None-Match'', [])]])"
  by (simp add: example_defs)

text \<open>
  Claim C3. When the upstream fetch answers 304, the client gets status 304 with an empty
  body (\<open>data = None\<close>) and the validators of the upstream response; the only event of
  the request is the GET itself, so the body was never parsed and the calibration engine
  never called.
\<close>

theorem not_modified_passes_through:
  assumes "prediction_json_url p = Some url" and "url \<noteq> []"
    and "requests_get w url PREDICTION_FETCH_TIMEOUT (upstream_headers request_headers) = Fetched r"
    and "status_code r = 304"
  shows "prediction_json w request_headers (Some p) =
           (Inr \<lparr>data = None, status = 304, headers = client_headers r\<rparr>,
            [HttpGet url PREDICTION_FETCH_TIMEOUT (upstream_headers request_headers)])
         \<and> JsonParse \<notin> set (snd (prediction_json w request_headers (Some p)))
         \<and> (\<forall>s pred. CalcCall s pred \<notin> set (snd (prediction_json w request_headers (Some p))))"
proof -
  have "raise_for_status r = Inr ()"
    using assms(4) by (simp add: raise_for_status_def)
  moreover have "respond w p r = (Inr \<lparr>data = None, status = 304, headers = client_headers r\<rparr>, [])"
    using assms(4) by (simp add: respond_def)
  ultimately have "fetch_predictions w request_headers p url =
      (Inr \<lparr>data = None, status = 304, headers = client_headers r\<rparr>,
       [HttpGet url PREDICTION_FETCH_TIMEOUT (upstream_headers request_headers)])"
    using assms(3) by (simp add: fetch_predictions_def)
  with assms(1,2) show ?thesis by (simp add: prediction_json_fetches)
qed

theorem not_modified_passes_through_witness:
  "prediction_json
     (example_world (Fetched \<lparr>status_code = 304, r_headers = [(''ETag'', ''abc'')], r_json = None\<rparr>))
     [(''If-None-Match'', ''abc'')] (Some (example_print None)) =
   (Inr \<lparr>data = None, status = 304, headers = [(''Etag'', ''abc'')]\<rparr>,
    [HttpGet ''https://store/p.json'' 20 [(''If-None-Match'', ''abc'')]])"
proof -
  let ?r = "\<lparr>status_code = 304, r_headers = [(''ETag'', ''abc'')], r_json = None\<rparr>"
  let ?w = "example_world (Fetched ?r)"
  have a: "prediction_json_url (example_print None) = Some ''https://store/p.json''"
    by (simp add: example_print_def)
  have b: "''https://store/p.json'' \<noteq> []" by simp
  have c: "requests_get ?w ''https://store/p.json'' PREDICTION_FETCH_TIMEOUT
             (upstream_headers [(''If-None-Match'', ''abc'')]) = Fetched ?r"
    by (simp add: example_world_def)
  have d: "status_code ?r = 304" by simp
  have u: "upstream_headers [(''If-None-Match'', ''abc'')] = [(''If-None-Match'', ''abc'')]"
    by (simp add: upstream_headers_def headers_get_def lower_def lower_char_def)
  have k: "client_headers ?r = [(''Etag'', ''abc'')]"
    by (simp add: client_headers_def headers_get_def lower_def lower_char_def)
  show ?thesis
    using not_modified_passes_through [OF a b c d]
    by (simp add: u k PREDICTION_FETCH_TIMEOUT_def)
qed

text \<open>
  Claim C4. A record of the timeline without a \<open>fields\<close> entry gets the field-set
  \<open>{'normalized_p': 0.0}\<close> and logs no call of the calibration engine. Inside a request
  whose other records normalize, the record appears in the response at its own position
  with that default, and the events of the request are those of the records before and
  after it: nothing is raised and nothing is dropped because of it.
\<close>

theorem missing_fields_get_default:
  assumes "prediction_json_url p = Some url" and "url \<noteq> []"
    and "requests_get w url PREDICTION_FETCH_TIMEOUT (upstream_headers request_headers) = Fetched r"
    and "\<not> (400 \<le> status_code r \<and> status_code r < 600)" and "status_code r \<noteq> 304"
    and "r_json r = Some (JArr (before @ JObj raw_pred # after))"
    and "map_of raw_pred ''fields'' = None"
    and "normalize_frames w (sensitivity_of w p) before = (Inr before', ev1)"
    and "normalize_frames w (sensitivity_of w p) after = (Inr after', ev2)"
  shows "normalize_frame w (sensitivity_of w p) (JObj raw_pred) =
           (Inr (JObj (raw_pred @ [(''fields'', JObj [(''normalized_p'', JNum 0)])])), [])
       \<and> prediction_json w request_headers (Some p) =
           (Inr \<lparr>data = Some (JArr (before' @
                    JObj (raw_pred @ [(''fields'', JObj [(''normalized_p'', JNum 0)])]) # after')),
                 status = 200, headers = client_headers r\<rparr>,
            HttpGet url PREDICTION_FETCH_TIMEOUT (upstream_headers request_headers) # JsonParse #
              ev1 @ ev2)"
proof -
  let ?s = "sensitivity_of w p"
  let ?f = "JObj (raw_pred @ [(''fields'', JObj [(''normalized_p'', JNum 0)])])"
  have one: "normalize_frame w ?s (JObj raw_pred) = (Inr ?f, [])"
    using assms(7) by (rule normalize_frame_missing_fields)
  with assms(9) have "normalize_frames w ?s (JObj raw_pred # after) = (Inr (?f # after'), ev2)"
    by simp
  with normalize_frames_append [OF assms(8), of "JObj raw_pred # after"]
  have "normalize_frames w ?s (before @ JObj raw_pred # after) = (Inr (before' @ ?f # after'), ev1 @ ev2)"
    by simp
  with fetch_predictions_array [OF assms(3,4,5,6), of p]
  have "fetch_predictions w request_headers p url =
      (Inr \<lparr>data = Some (JArr (before' @ ?f # after')), status = 200, headers = client_headers r\<rparr>,
       HttpGet url PREDICTION_FETCH_TIMEOUT (upstream_headers request_headers) # JsonParse # ev1 @ ev2)"
    by simp
  with assms(1,2) one show ?thesis by (simp add: prediction_json_fetches)
qed

theorem missing_fields_get_default_witness:
  "prediction_json
     (example_world (Fetched \<lparr>status_code = 200, r_headers = [],
        r_json = Some (JArr [JObj [(''fields'', JObj [(''no_error'', JNum 0.9)])], JObj []])\<rparr>))
     [] (Some (example_print None)) =
   (Inr \<lparr>data = Some (JArr
            [JObj [(''fields'', JObj [(''no_error'', JNum 0.9), (''normalized_p'', JNum 1)])],
             JObj [(''fields'', JObj [(''normalized_p'', JNum 0)])]]),
         status = 200, headers = []\<rparr>,
    [HttpGet ''https://store/p.json'' 20 [], JsonParse, CalcCall 1 [(''no_error'', JNum 0.9)]])"
proof -
  let ?f1 = "JObj [(''fields'', JObj [(''no_error'', JNum 0.9)])]"
  let ?r = "\<lparr>status_code = 200, r_headers = [], r_json = Some (JArr [?f1, JObj []])\<rparr>"
  let ?w = "example_world (Fetched ?r)"
  let ?p = "example_print None"
  have a: "prediction_json_url ?p = Some ''https://store/p.json''"
    by (simp add: example_print_def)
  have b: "''https://store/p.json'' \<noteq> []" by simp
  have c: "requests_get ?w ''https://store/p.json'' PREDICTION_FETCH_TIMEOUT
             (upstream_headers []) = Fetched ?r"
    by (simp add: example_world_def)
  have d: "\<not> (400 \<le> status_code ?r \<and> status_code ?r < 600)" by simp
  have e: "status_code ?r \<noteq> 304" by simp
  have f: "r_json ?r = Some (JArr ([?f1] @ JObj [] # []))" by simp
  have g: "map_of ([] :: (string \<times> json) list) ''fields'' = None" by simp
  have s: "sensitivity_of ?w ?p = 1"
    by (simp add: sensitivity_of_def example_world_def example_print_def)
  have h: "normalize_frames ?w (sensitivity_of ?w ?p) [?f1] =
             (Inr [JObj [(''fields'', JObj [(''no_error'', JNum 0.9), (''normalized_p'', JNum 1)])]],
              [CalcCall 1 [(''no_error'', JNum 0.9)]])"
    unfolding s by (simp add: example_world_def)
  have i: "normalize_frames ?w (sensitivity_of ?w ?p) [] = (Inr [], [])" by simp
  have u: "upstream_headers [] = []" by (simp add: upstream_headers_def headers_get_def)
  have k: "client_headers ?r = []" by (simp add: client_headers_def headers_get_def)
  show ?thesis
    using missing_fields_get_default [OF a b c d e f g h i]
    by (simp add: u k PREDICTION_FETCH_TIMEOUT_def)
qed

text \<open>
  Claim C5. For a print whose prediction URL is absent (\<open>None\<close>, or the empty string,
  which \<open>not p.prediction_json_url\<close> treats alike), the view returns the empty sequence
  at once: the body is \<open>[]\<close> and the event log is empty, so no upstream GET was made.
\<close>

theorem no_reference_returns_empty_without_fetch:
  assumes "prediction_json_url p = None \<or> prediction_json_url p = Some []"
  shows "prediction_json w request_headers (Some p) =
           (Inr \<lparr>data = Some (JArr []), status = 200, headers = []\<rparr>, [])"
  using assms by (auto simp: prediction_json_def)

theorem no_reference_returns_empty_without_fetch_witness:
  "prediction_json (example_world (Raised Timeout)) [(''If-None-Match'', ''abc'')]
      (Some \<lparr>prediction_json_url = None, printer = None\<rparr>) =
   (Inr \<lparr>data = Some (JArr []), status = 200, headers = []\<rparr>, [])"
  using no_reference_returns_empty_without_fetch
    [of "\<lparr>prediction_json_url = None, printer = None\<rparr>" "example_world (Raised Timeout)"
        "[(''If-None-Match'', ''abc'')]"]
  by simp

text \<open>
  Claim C6, as the code has it. The GET is issued with the fixed timeout 20. When it
  raises (a timeout, or any other failure before a response exists), the view fails with
  that error; when upstream answers with a status from 400 to 599, \<open>raise_for_status\<close>
  makes the view fail with \<open>HTTPError\<close>. In both cases the request made exactly one GET
  and returns no response at all. In every case the log holds exactly one GET: nothing
  is retried.
\<close>

theorem fetch_failure_propagates:
  assumes "prediction_json_url p = Some url" and "url \<noteq> []"
  shows "(requests_get w url PREDICTION_FETCH_TIMEOUT (upstream_headers request_headers) = Raised e \<longrightarrow>
            prediction_json w request_headers (Some p) =
              (Inl e, [HttpGet url 20 (upstream_headers request_headers)]))
       \<and> (requests_get w url PREDICTION_FETCH_TIMEOUT (upstream_headers request_headers) = Fetched r
            \<and> 400 \<le> status_code r \<and> status_code r < 600 \<longrightarrow>
            prediction_json w request_headers (Some p) =
              (Inl (HTTPError (status_code r)), [HttpGet url 20 (upstream_headers request_headers)]))
       \<and> (\<exists>rest. snd (prediction_json w request_headers (Some p)) =
              HttpGet url 20 (upstream_headers request_headers) # rest
            \<and> (\<forall>u t hs. HttpGet u t hs \<notin> set rest))"
proof (intro conjI impI)
  assume "requests_get w url PREDICTION_FETCH_TIMEOUT (upstream_headers request_headers) = Raised e"
  with assms show "prediction_json w request_headers (Some p) =
      (Inl e, [HttpGet url 20 (upstream_headers request_headers)])"
    by (simp add: prediction_json_fetches fetch_predictions_def PREDICTION_FETCH_TIMEOUT_def)
next
  assume "requests_get w url PREDICTION_FETCH_TIMEOUT (upstream_headers request_headers) = Fetched r
            \<and> 400 \<le> status_code r \<and> status_code r < 600"
  with assms show "prediction_json w request_headers (Some p) =
      (Inl (HTTPError (status_code r)), [HttpGet url 20 (upstream_headers request_headers)])"
    by (simp add: prediction_json_fetches fetch_predictions_def raise_for_status_def
                  PREDICTION_FETCH_TIMEOUT_def)
next
  obtain rest where
    "snd (fetch_predictions w request_headers p url) =
       HttpGet url PREDICTION_FETCH_TIMEOUT (upstream_headers request_headers) # rest"
    "\<forall>e \<in> set rest. e = JsonParse \<or> (\<exists>pred. e = CalcCall (sensitivity_of w p) pred)"
    using fetch_predictions_events [of w request_headers p url] by blast
  with assms show "\<exists>rest. snd (prediction_json w request_headers (Some p)) =
              HttpGet url 20 (upstream_headers request_headers) # rest
            \<and> (\<forall>u t hs. HttpGet u t hs \<notin> set rest)"
    by (auto simp: prediction_json_fetches PREDICTION_FETCH_TIMEOUT_def)
qed

theorem fetch_failure_propagates_witness:
  "prediction_json (example_world (Raised Timeout)) [] (Some (example_print None)) =
     (Inl Timeout, [HttpGet ''https://store/p.json'' 20 []])
   \<and> prediction_json
       (example_world (Fetched \<lparr>status_code = 503, r_headers = [], r_json = Some (JArr [])\<rparr>))
       [] (Some (example_print None)) =
     (Inl (HTTPError 503), [HttpGet ''https://store/p.json'' 20 []])"
proof -
  let ?r = "\<lparr>status_code = 503, r_headers = [], r_json = Some (JArr [])\<rparr>"
  have a: "prediction_json_url (example_print None) = Some ''https://store/p.json''"
    by (simp add: example_print_def)
  have b: "''https://store/p.json'' \<noteq> []" by simp
  have u: "upstream_headers [] = []" by (simp add: upstream_headers_def headers_get_def)
  have c: "requests_get (example_world (Raised Timeout)) ''https://store/p.json''
             PREDICTION_FETCH_TIMEOUT (upstream_headers []) = Raised Timeout"
    by (simp add: example_world_def)
  have d: "requests_get (example_world (Fetched ?r)) ''https://store/p.json''
             PREDICTION_FETCH_TIMEOUT (upstream_headers []) = Fetched ?r
           \<and> 400 \<le> status_code ?r \<and> status_code ?r < 600"
    by (simp add: example_world_def)
  show ?thesis
    using fetch_failure_propagates [OF a b, of "example_world (Raised Timeout)" "[]" Timeout ?r]
          fetch_failure_propagates [OF a b, of "example_world (Fetched ?r)" "[]" Timeout ?r]
          c d u
    by simp
qed

text \<open>
  Claim C6 as stated says that every status that is neither 2xx nor 304 fails the request.
  \<open>raise_for_status\<close> returns for a status below 400: an upstream answer with status 300
  and a JSON array as body is parsed, normalized and returned with status 200.
\<close>

theorem redirect_class_status_is_normalized:
  "prediction_json
     (example_world (Fetched \<lparr>status_code = 300, r_headers = [], r_json = Some (JArr [JObj []])\<rparr>))
     [] (Some (example_print None)) =
   (Inr \<lparr>data = Some (JArr [JObj [(''fields'', JObj [(''normalized_p'', JNum 0)])]]),
         status = 200, headers = []\<rparr>,
    [HttpGet ''https://store/p.json'' 20 [], JsonParse])"
  by (simp add: example_defs)

text \<open>
  Claim C8. Every call of the calibration engine that a request makes passes, as its
  sensitivity, the \<open>detective_sensitivity\<close> of the print's printer when the print has one,
  and the default of the \<open>detective_sensitivity\<close> field when it has none.
\<close>

theorem calibration_uses_printer_sensitivity:
  assumes "CalcCall s pred \<in> set (snd (prediction_json w request_headers (Some p)))"
  shows "(\<forall>pr. printer p = Some pr \<longrightarrow> s = detective_sensitivity pr)
       \<and> (printer p = None \<longrightarrow> s = default_detective_sensitivity w)"
proof -
  from assms obtain u where p: "prediction_json_url p = Some u" "u \<noteq> []"
    by (auto simp: prediction_json_def split: option.splits if_splits)
  then have "CalcCall s pred \<in> set (snd (fetch_predictions w request_headers p u))"
    using assms by (simp add: prediction_json_fetches)
  moreover obtain rest where
    "snd (fetch_predictions w request_headers p u) =
       HttpGet u PREDICTION_FETCH_TIMEOUT (upstream_headers request_headers) # rest"
    "\<forall>e \<in> set rest. e = JsonParse \<or> (\<exists>pred. e = CalcCall (sensitivity_of w p) pred)"
    using fetch_predictions_events [of w request_headers p u] by blast
  ultimately have "s = sensitivity_of w p" by auto
  then show ?thesis by (simp add: sensitivity_of_def)
qed

theorem calibration_uses_printer_sensitivity_witness:
  "CalcCall 3 [(''no_error'', JNum 1)] \<in> set (snd (prediction_json
      (example_world (Fetched \<lparr>status_code = 200, r_headers = [],
         r_json = Some (JArr [JObj [(''fields'', JObj [(''no_error'', JNum 1)])]])\<rparr>))
      [] (Some (example_print (Some \<lparr>detective_sensitivity = 3\<rparr>)))))
   \<and> CalcCall 1 [(''no_error'', JNum 1)] \<in> set (snd (prediction_json
      (example_world (Fetched \<lparr>status_code = 200, r_headers = [],
         r_json = Some (JArr [JObj [(''fields'', JObj [(''no_error'', JNum 1)])]])\<rparr>))
      [] (Some (example_print None))))
   \<and> default_detective_sensitivity (example_world (Raised Timeout)) = 1"
proof -
  let ?w = "example_world (Fetched \<lparr>status_code = 200, r_headers = [],
         r_json = Some (JArr [JObj [(''fields'', JObj [(''no_error'', JNum 1)])]])\<rparr>)"
  have a: "CalcCall 3 [(''no_error'', JNum 1)] \<in> set (snd (prediction_json ?w
      [] (Some (example_print (Some \<lparr>detective_sensitivity = 3\<rparr>)))))"
    by (simp add: example_defs)
  have b: "CalcCall 1 [(''no_error'', JNum 1)] \<in> set (snd (prediction_json ?w
      [] (Some (example_print None))))"
    by (simp add: example_defs)
  show ?thesis
    using calibration_uses_printer_sensitivity [OF a] calibration_uses_printer_sensitivity [OF b] a b
    by (simp add: example_world_def example_print_def)
qed

text \<open>
  Claim C9. Whenever the view answers after a fetch (status 200 or 304), looking up
  \<open>Last-Modified\<close> or \<open>Etag\<close> in the client response gives exactly what the upstream
  response gives for that name: the header is there if and only if upstream supplied it,
  with the same value. The view sets no other header.
\<close>

theorem validators_pass_through:
  assumes "prediction_json_url p = Some url" and "url \<noteq> []"
    and "requests_get w url PREDICTION_FETCH_TIMEOUT (upstream_headers request_headers) = Fetched r"
    and "prediction_json w request_headers (Some p) = (Inr resp, ev)"
  shows "map_of (headers resp) ''Last-Modified'' = headers_get (r_headers r) ''Last-Modified''
       \<and> map_of (headers resp) ''Etag'' = headers_get (r_headers r) ''Etag''
       \<and> fst ` set (headers resp) \<subseteq> {''Last-Modified'', ''Etag''}
       \<and> (status resp = 304 \<or> status resp = 200)"
proof -
  from assms have "fetch_predictions w request_headers p url = (Inr resp, ev)"
    by (simp add: prediction_json_fetches)
  with assms(3) obtain ev' where "respond w p r = (Inr resp, ev')"
    by (auto simp: fetch_predictions_def Let_def split: sum.splits prod.splits)
  then have "headers resp = client_headers r \<and> (status resp = 304 \<or> status resp = 200)"
    by (auto simp: respond_def split: sum.splits prod.splits if_splits option.splits)
  then show ?thesis using client_headers_lookup [of r] by simp
qed

theorem validators_pass_through_witness:
  "prediction_json
     (example_world (Fetched \<lparr>status_code = 200,
        r_headers = [(''last-modified'', ''Tue, 03 Nov 2026 10:00:00 GMT'')],
        r_json = Some (JArr [])\<rparr>))
     [] (Some (example_print None)) =
   (Inr \<lparr>data = Some (JArr []), status = 200,
         headers = [(''Last-Modified'', ''Tue, 03 Nov 2026 10:00:00 GMT'')]\<rparr>,
    [HttpGet ''https://store/p.json'' 20 [], JsonParse])
   \<and> headers_get [(''last-modified'', ''Tue, 03 Nov 2026 10:00:00 GMT'')] ''Last-Modified'' =
       Some ''Tue, 03 Nov 2026 10:00:00 GMT''
   \<and> headers_get [(''last-modified'', ''Tue, 03 Nov 2026 10:00:00 GMT'')] ''Etag'' = None"
proof -
  let ?r = "\<lparr>status_code = 200, r_headers = [(''last-modified'', ''Tue, 03 Nov 2026 10:00:00 GMT'')],
             r_json = Some (JArr [])\<rparr>"
  let ?w = "example_world (Fetched ?r)"
  let ?resp = "\<lparr>data = Some (JArr []), status = 200,
                headers = [(''Last-Modified'', ''Tue, 03 Nov 2026 10:00:00 GMT'')]\<rparr>"
  have a: "prediction_json_url (example_print None) = Some ''https://store/p.json''"
    by (simp add: example_print_def)
  have b: "''https://store/p.json'' \<noteq> []" by simp
  have c: "requests_get ?w ''https://store/p.json'' PREDICTION_FETCH_TIMEOUT
             (upstream_headers []) = Fetched ?r"
    by (simp add: example_world_def)
  have d: "prediction_json ?w [] (Some (example_print None)) =
             (Inr ?resp, [HttpGet ''https://store/p.json'' 20 [], JsonParse])"
    by (simp add: example_defs)
  show ?thesis
    using validators_pass_through [OF a b c d] d by simp
qed

text \<open>
  Claim C10. The default is synthesized only in the branch \<open>'fields' not in raw_pred\<close>.
  When some record of the body has a \<open>fields\<close> entry whose value is not a field-set the
  model constructor accepts (it is not a JSON object, or the constructor raises on it),
  the whole request fails with an error and no response is returned.
\<close>

theorem rejected_field_set_fails_request:
  assumes "prediction_json_url p = Some url" and "url \<noteq> []"
    and "requests_get w url PREDICTION_FETCH_TIMEOUT (upstream_headers request_headers) = Fetched r"
    and "status_code r \<noteq> 304"
    and "r_json r = Some (JArr frames)"
    and "JObj raw_pred \<in> set frames"
    and "map_of raw_pred ''fields'' = Some v"
    and "\<forall>fs. v = JObj fs \<longrightarrow> (\<exists>e. PrinterPrediction w fs = Inl e)"
  shows "\<exists>e. fst (prediction_json w request_headers (Some p)) = Inl e"
proof (cases "400 \<le> status_code r \<and> status_code r < 600")
  case True
  with assms(1,2,3) show ?thesis
    by (simp add: prediction_json_fetches fetch_predictions_def raise_for_status_def)
next
  case False
  let ?s = "sensitivity_of w p"
  from normalize_frame_rejected [OF assms(7,8), of ?s] obtain e where
    "fst (normalize_frame w ?s (JObj raw_pred)) = Inl e" by auto
  from normalize_frames_fails [OF assms(6) this] obtain e' where
    "fst (normalize_frames w ?s frames) = Inl e'" by blast
  then have "\<exists>e. fst (fetch_predictions w request_headers p url) = Inl e"
    using fetch_predictions_array [OF assms(3) False assms(4,5), of p]
    by (auto split: prod.splits sum.splits)
  with assms(1,2) show ?thesis by (simp add: prediction_json_fetches)
qed

theorem rejected_field_set_fails_request_witness:
  "(\<exists>e. fst (prediction_json
       (example_world (Fetched \<lparr>status_code = 200, r_headers = [],
          r_json = Some (JArr [JObj [], JObj [(''fields'', JObj [(''bogus'', JNum 1)])]])\<rparr>))
       [] (Some (example_print None))) = Inl e)
   \<and> PrinterPrediction (example_world (Raised Timeout)) [(''bogus'', JNum 1)] = Inl TypeError"
proof -
  let ?frames = "[JObj [], JObj [(''fields'', JObj [(''bogus'', JNum 1)])]]"
  let ?r = "\<lparr>status_code = 200, r_headers = [], r_json = Some (JArr ?frames)\<rparr>"
  let ?w = "example_world (Fetched ?r)"
  have a: "prediction_json_url (example_print None) = Some ''https://store/p.json''"
    by (simp add: example_print_def)
  have b: "''https://store/p.json'' \<noteq> []" by simp
  have c: "requests_get ?w ''https://store/p.json'' PREDICTION_FETCH_TIMEOUT
             (upstream_headers []) = Fetched ?r"
    by (simp add: example_world_def)
  have d: "status_code ?r \<noteq> 304" by simp
  have e: "r_json ?r = Some (JArr ?frames)" by simp
  have f: "JObj [(''fields'', JObj [(''bogus'', JNum 1)])] \<in> set ?frames" by simp
  have g: "map_of [(''fields'', JObj [(''bogus'', JNum 1)])] ''fields'' =
             Some (JObj [(''bogus'', JNum 1)])" by simp
  have h: "\<forall>fs. JObj [(''bogus'', JNum 1)] = JObj fs \<longrightarrow> (\<exists>e. PrinterPrediction ?w fs = Inl e)"
    by (simp add: example_world_def)
  have i: "PrinterPrediction (example_world (Raised Timeout)) [(''bogus'', JNum 1)] = Inl TypeError"
    by (simp add: example_world_def)
  show ?thesis
    using rejected_field_set_fails_request [OF a b c d e f g h] i by simp
qed

end
